theory Spec2Isabelle
  imports Main "HOL-Library.Word" "HOL-Library.Sublist"
begin

unbundle bit_operations_syntax

section \<open>Bytes, text and the built-ins the code relies on\<close>

text \<open>
  A Python \<open>bytes\<close> value is a list of 8-bit words. A Python \<open>str\<close> is an Isabelle
  \<open>string\<close>: the characters of its UTF-8 representation, so that \<open>str.encode()\<close> (UTF-8
  by default) only changes the element type. All text the server creates itself (seeds,
  proofs, decimal indices, the \<open>'_seed'\<close> suffix) is ASCII.
\<close>

type_synonym byte = "8 word"
type_synonym bytes = "byte list"

definition encode :: "string \<Rightarrow> bytes" where
  "encode s = map (\<lambda>c. of_char c) s"

text \<open>\<open>bytes.hex()\<close>: two lowercase hexadecimal digits per byte, high nibble first.\<close>

definition hexdigits :: string where
  "hexdigits = ''0123456789abcdef''"

definition hex_byte :: "byte \<Rightarrow> string" where
  "hex_byte b = [hexdigits ! (unat b div 16), hexdigits ! (unat b mod 16)]"

definition hex :: "bytes \<Rightarrow> string" where
  "hex bs = concat (map hex_byte bs)"

text \<open>\<open>str(index)\<close> on a Python integer: decimal digits, most significant first, no
  leading zero, a minus sign for a negative number.\<close>

fun str_nat :: "nat \<Rightarrow> string" where
  "str_nat n = (if n < 10 then [hexdigits ! n] else str_nat (n div 10) @ [hexdigits ! (n mod 10)])"

declare str_nat.simps [simp del]

definition str :: "int \<Rightarrow> string" where
  "str i = (if i < 0 then CHR ''-'' # str_nat (nat (- i)) else str_nat (nat i))"

section \<open>SHA-256 (\<open>hashlib.sha256\<close>)\<close>

text \<open>
  The hash function of Python's \<open>hashlib\<close>, written out after FIPS 180-4 on 32-bit words.
  The round constants are the first 32 bits of the fractional parts of the cube roots of
  the first 64 primes, the initial hash value those of the square roots of the first 8.
\<close>

type_synonym w32 = "32 word"

definition K256 :: "w32 list" where
  "K256 =
    [1116352408, 1899447441, 3049323471, 3921009573, 961987163, 1508970993,
     2453635748, 2870763221, 3624381080, 310598401, 607225278, 1426881987,
     1925078388, 2162078206, 2614888103, 3248222580, 3835390401, 4022224774,
     264347078, 604807628, 770255983, 1249150122, 1555081692, 1996064986,
     2554220882, 2821834349, 2952996808, 3210313671, 3336571891, 3584528711,
     113926993, 338241895, 666307205, 773529912, 1294757372, 1396182291,
     1695183700, 1986661051, 2177026350, 2456956037, 2730485921, 2820302411,
     3259730800, 3345764771, 3516065817, 3600352804, 4094571909, 275423344,
     430227734, 506948616, 659060556, 883997877, 958139571, 1322822218,
     1537002063, 1747873779, 1955562222, 2024104815, 2227730452, 2361852424,
     2428436474, 2756734187, 3204031479, 3329325298]"

definition H256_init :: "w32 list" where
  "H256_init =
    [1779033703, 3144134277, 1013904242, 2773480762,
     1359893119, 2600822924, 528734635, 1541459225]"

definition Ch :: "w32 \<Rightarrow> w32 \<Rightarrow> w32 \<Rightarrow> w32" where
  "Ch x y z = (x AND y) XOR (NOT x AND z)"

definition Maj :: "w32 \<Rightarrow> w32 \<Rightarrow> w32 \<Rightarrow> w32" where
  "Maj x y z = (x AND y) XOR (x AND z) XOR (y AND z)"

definition Sigma0 :: "w32 \<Rightarrow> w32" where
  "Sigma0 x = word_rotr 2 x XOR word_rotr 13 x XOR word_rotr 22 x"

definition Sigma1 :: "w32 \<Rightarrow> w32" where
  "Sigma1 x = word_rotr 6 x XOR word_rotr 11 x XOR word_rotr 25 x"

definition sigma0 :: "w32 \<Rightarrow> w32" where
  "sigma0 x = word_rotr 7 x XOR word_rotr 18 x XOR drop_bit 3 x"

definition sigma1 :: "w32 \<Rightarrow> w32" where
  "sigma1 x = word_rotr 17 x XOR word_rotr 19 x XOR drop_bit 10 x"

text \<open>Big-endian conversions between bytes and words.\<close>

definition be32 :: "bytes \<Rightarrow> w32" where
  "be32 bs = foldl (\<lambda>w b. push_bit 8 w OR ucast b) 0 bs"

definition w32_bytes :: "w32 \<Rightarrow> bytes" where
  "w32_bytes w = [ucast (drop_bit 24 w), ucast (drop_bit 16 w), ucast (drop_bit 8 w), ucast w]"

definition be64_bytes :: "64 word \<Rightarrow> bytes" where
  "be64_bytes w = map (\<lambda>i. ucast (drop_bit (8 * (7 - i)) w)) [0..<8]"

text \<open>Padding: a \<open>1\<close> bit, zeros up to 56 modulo 64 bytes, the bit length on 64 bits.\<close>

definition sha_pad :: "bytes \<Rightarrow> bytes" where
  "sha_pad m =
     m @ [0x80] @ replicate ((119 - length m mod 64) mod 64) 0 @ be64_bytes (of_nat (8 * length m))"

definition sha_chunks :: "bytes \<Rightarrow> bytes list" where
  "sha_chunks p = map (\<lambda>i. take 64 (drop (64 * i) p)) [0..<length p div 64]"

definition sha_words :: "bytes \<Rightarrow> w32 list" where
  "sha_words c = map (\<lambda>j. be32 (take 4 (drop (4 * j) c))) [0..<16]"

definition sha_extend :: "w32 list \<Rightarrow> w32 list" where
  "sha_extend w =
     (let t = length w
      in w @ [sigma1 (w ! (t - 2)) + w ! (t - 7) + sigma0 (w ! (t - 15)) + w ! (t - 16)])"

definition sha_schedule :: "bytes \<Rightarrow> w32 list" where
  "sha_schedule c = (sha_extend ^^ 48) (sha_words c)"

fun sha_round :: "w32 list \<Rightarrow> w32 \<times> w32 \<Rightarrow> w32 list" where
  "sha_round [a, b, c, d, e, f, g, h] (k, w) =
     (let T1 = h + Sigma1 e + Ch e f g + k + w;
          T2 = Sigma0 a + Maj a b c
      in [T1 + T2, a, b, c, d + T1, e, f, g])"
| "sha_round s _ = s"

definition sha_compress :: "w32 list \<Rightarrow> bytes \<Rightarrow> w32 list" where
  "sha_compress hs c = map2 (+) hs (foldl sha_round hs (zip K256 (sha_schedule c)))"

definition sha256 :: "bytes \<Rightarrow> bytes" where
  "sha256 m = concat (map w32_bytes (foldl sha_compress H256_init (sha_chunks (sha_pad m))))"

section \<open>\<open>utils.py\<close>: block segmenter and mask generator\<close>

text \<open>
  Files are looked up by path in a file system; \<open>open\<close> on a path that holds no file
  raises. Every exception of the code is a value of \<open>error\<close>; \<open>OSError\<close> stands for the
  operating system's other refusals of a write (a path that names a directory, no
  permission, no space), with the message.
\<close>

datatype error = FileNotFoundError | ValueError string | OSError string

type_synonym filesystem = "string \<rightharpoonup> bytes"

definition BLOCK_SIZE :: nat where
  "BLOCK_SIZE = 4096"

text \<open>The read loop of \<open>get_file_blocks\<close> on the unread rest of the file: \<open>f.read(BLOCK_SIZE)\<close>
  returns the next \<open>BLOCK_SIZE\<close> bytes, fewer at the end of the file, none after it.\<close>

function read_blocks :: "bytes \<Rightarrow> bytes list" where
  "read_blocks f =
     (if take BLOCK_SIZE f = [] then []
      else take BLOCK_SIZE f # read_blocks (drop BLOCK_SIZE f))"
  by pat_completeness auto
termination
  by (relation "measure length") (auto simp: BLOCK_SIZE_def)

declare read_blocks.simps [simp del]

definition get_file_blocks :: "filesystem \<Rightarrow> string \<Rightarrow> error + bytes list" where
  "get_file_blocks fs filepath =
     (case fs filepath of
        None \<Rightarrow> Inl FileNotFoundError
      | Some content \<Rightarrow> Inr (read_blocks content))"

definition prg :: "string \<Rightarrow> int \<Rightarrow> bytes" where
  "prg seed index = sha256 (encode seed @ encode (str index))"

section \<open>\<open>client.py\<close>: the claimant's proof\<close>

definition generate_user_proof :: "filesystem \<Rightarrow> string \<Rightarrow> string \<Rightarrow> error + string" where
  "generate_user_proof fs filepath seed =
     (case get_file_blocks fs filepath of
        Inl e \<Rightarrow> Inl e
      | Inr blocks \<Rightarrow>
          if length blocks < 2
          then Inl (ValueError
            ''File is too small for this proof scheme (must have at least two blocks).'')
          else
            let para1 = sha256 (blocks ! 0 @ prg seed 1);
                para2 = sha256 (blocks ! 1 @ prg seed 2);
                resp = sha256 (para1 @ para2);
                resp = foldl (\<lambda>resp i.
                         let block_hash = sha256 (blocks ! i @ prg seed (int i + 1))
                         in sha256 (resp @ block_hash))
                       resp [2..<length blocks]
            in Inr (hex resp))"

section \<open>\<open>server.py\<close>: the server's proof and its three endpoints\<close>

text \<open>\<open>generate_server_proof\<close> returns Python's \<open>None\<close> on a file of fewer than two
  blocks, where the client raises.\<close>

definition generate_server_proof :: "filesystem \<Rightarrow> string \<Rightarrow> string \<Rightarrow> error + string option" where
  "generate_server_proof fs filepath seed =
     (case get_file_blocks fs filepath of
        Inl e \<Rightarrow> Inl e
      | Inr blocks \<Rightarrow>
          if length blocks < 2 then Inr None
          else
            let para1 = sha256 (blocks ! 0 @ prg seed 1);
                para2 = sha256 (blocks ! 1 @ prg seed 2);
                resp = sha256 (para1 @ para2);
                resp = foldl (\<lambda>resp i.
                         let block_hash = sha256 (blocks ! i @ prg seed (int i + 1))
                         in sha256 (resp @ block_hash))
                       resp [2..<length blocks]
            in Inr (Some (hex resp)))"

text \<open>
  The server's state: the dictionary \<open>file_db\<close>, which holds under a tag the path of the
  stored file and under the tag followed by \<open>'_seed'\<close> the pending seed, and the files on
  its disk.
\<close>

record server =
  file_db :: "string \<rightharpoonup> string"
  storage :: filesystem

definition SERVER_STORAGE_PATH :: string where
  "SERVER_STORAGE_PATH = ''server_storage/''"

text \<open>The JSON replies. \<open>Status_error\<close> carries the message and the HTTP status (400 or
  404); \<open>Status_failed\<close> is sent with status 403.\<close>

datatype reply =
    Status_error string nat
  | Status_new
  | Status_exists string
  | Status_uploaded string
  | Status_verified
  | Status_failed

text \<open>Python's \<open>not v\<close> on a value that is \<open>None\<close> or a string.\<close>

definition falsy :: "string option \<Rightarrow> bool" where
  "falsy v = (case v of None \<Rightarrow> True | Some s \<Rightarrow> s = [])"

text \<open>\<open>secrets.token_hex(n)\<close> is the hex text of \<open>n\<close> bytes drawn from the system's
  entropy source; the bytes drawn by one call are the argument \<open>rnd\<close>.\<close>

type_synonym entropy = "nat \<Rightarrow> byte"

definition token_bytes :: "nat \<Rightarrow> entropy \<Rightarrow> bytes" where
  "token_bytes n rnd = map rnd [0..<n]"

definition token_hex :: "nat \<Rightarrow> entropy \<Rightarrow> string" where
  "token_hex n rnd = hex (token_bytes n rnd)"

text \<open>\<open>os.path.join\<close> on two components (POSIX): an absolute second component replaces
  the first.\<close>

definition path_join :: "string \<Rightarrow> string \<Rightarrow> string" where
  "path_join a b =
     (if b \<noteq> [] \<and> hd b = CHR ''/'' then b
      else if a = [] \<or> last a = CHR ''/'' then a @ b
      else a @ ''/'' @ b)"

definition handle_upload_check :: "server \<Rightarrow> string \<Rightarrow> entropy \<Rightarrow> reply \<times> server" where
  "handle_upload_check st file_tag rnd =
     (if file_tag = [] then (Status_error ''File tag missing.'' 400, st)
      else if file_tag \<in> dom (file_db st) then
        let seed = token_hex 16 rnd
        in (Status_exists seed, st\<lparr>file_db := (file_db st)(file_tag @ ''_seed'' \<mapsto> seed)\<rparr>)
      else (Status_new, st))"

text \<open>
  An upload request carries the tag and, when it has a file part, the file's name and
  content. A request without a tag behaves as one with the empty tag: \<open>not tag\<close> holds
  of both.

  \<open>file.save(filepath)\<close> hands the write to the operating system, which decides whether
  it succeeds and which file the path names: it raises for a path in a directory that does
  not exist, for a path that names a directory, for a full disk, and the two paths
  \<open>server_storage/f\<close> and \<open>server_storage/./f\<close> name one file. The write is therefore an
  argument of the endpoint: from the disk, the path and the content it gives the disk after
  the attempt and the exception, if one was raised. An exception ends the request (the
  framework answers 500) before the tag is registered.
\<close>

type_synonym writer = "filesystem \<Rightarrow> string \<Rightarrow> bytes \<Rightarrow> error option \<times> filesystem"

definition upload_full_file ::
  "writer \<Rightarrow> server \<Rightarrow> (string \<times> bytes) option \<Rightarrow> string \<Rightarrow> (error + reply) \<times> server" where
  "upload_full_file save st file tag =
     (case file of
        None \<Rightarrow> (Inr (Status_error ''No file part.'' 400), st)
      | Some (filename, content) \<Rightarrow>
          if filename = [] \<or> tag = [] then (Inr (Status_error ''Invalid request.'' 400), st)
          else
            let filepath = path_join SERVER_STORAGE_PATH filename;
                (raised, disk) = save (storage st) filepath content
            in case raised of
                 Some e \<Rightarrow> (Inl e, st\<lparr>storage := disk\<rparr>)
               | None \<Rightarrow>
                   (Inr (Status_uploaded filename),
                    st\<lparr>storage := disk, file_db := (file_db st)(tag \<mapsto> filepath)\<rparr>))"

text \<open>\<open>user_proof\<close> is \<open>data.get('proof')\<close>: \<open>None\<close> when the request has no proof. An
  exception leaves the state as it was: the only statement that can raise,
  \<open>generate_server_proof\<close>, comes before the deletion.\<close>

definition verify_ownership :: "server \<Rightarrow> string \<Rightarrow> string option \<Rightarrow> error + reply \<times> server" where
  "verify_ownership st tag user_proof =
     (let filepath = file_db st tag;
          seed = file_db st (tag @ ''_seed'')
      in if falsy filepath \<or> falsy seed
         then Inr (Status_error ''Verification failed.'' 404, st)
         else
           case generate_server_proof (storage st) (the filepath) (the seed) of
             Inl e \<Rightarrow> Inl e
           | Inr server_proof \<Rightarrow>
               let st' = st\<lparr>file_db := (file_db st)(tag @ ''_seed'' := None)\<rparr>
               in if user_proof = server_proof then Inr (Status_verified, st')
                  else Inr (Status_failed, st'))"

abbreviation NotFound :: reply where
  "NotFound \<equiv> Status_error ''Verification failed.'' 404"

section \<open>Histories of requests\<close>

text \<open>
  The server starts with an empty \<open>file_db\<close> and serves one request after another. An
  event is a request together with what its handler takes from outside: the entropy read
  by \<open>secrets.token_hex\<close>, the operating system's write. A request whose handler raises
  leaves \<open>file_db\<close> as it was. Along a history the tags registered by uploads that
  answered \<open>uploaded\<close> are collected.
\<close>

datatype event =
    Check_file string entropy
  | Upload_file "(string \<times> bytes) option" string writer
  | Verify string "string option"

fun step :: "server \<Rightarrow> event \<Rightarrow> server" where
  "step st (Check_file tag rnd) = snd (handle_upload_check st tag rnd)"
| "step st (Upload_file file tag save) = snd (upload_full_file save st file tag)"
| "step st (Verify tag user_proof) =
     (case verify_ownership st tag user_proof of
        Inl e \<Rightarrow> st
      | Inr (r, st') \<Rightarrow> st')"

fun registers :: "server \<Rightarrow> event \<Rightarrow> string set" where
  "registers st (Upload_file file tag save) =
     (case fst (upload_full_file save st file tag) of
        Inr (Status_uploaded filename) \<Rightarrow> {tag}
      | _ \<Rightarrow> {})"
| "registers st _ = {}"

fun run :: "server \<times> string set \<Rightarrow> event list \<Rightarrow> server \<times> string set" where
  "run (st, reg) [] = (st, reg)"
| "run (st, reg) (e # es) = run (step st e, reg \<union> registers st e) es"

definition start :: "filesystem \<Rightarrow> server \<times> string set" where
  "start disk = (\<lparr>file_db = Map.empty, storage = disk\<rparr>, {})"

section \<open>The proof and the seed as the specification words them\<close>

text \<open>
  The specification's proof engine, for comparison with the code: the mask of a seed and
  a 1-based index is the hash of the seed's bytes followed by the index in decimal (the
  digits \<open>0\<close> to \<open>9\<close>, most significant first, no leading zero); the
  accumulator starts as the hash of the first two masked block hashes and absorbs the
  masked hash of each further block in ascending order.
\<close>

fun spec_decimal :: "nat \<Rightarrow> string" where
  "spec_decimal n =
     (if n < 10 then [''0123456789'' ! n]
      else spec_decimal (n div 10) @ [''0123456789'' ! (n mod 10)])"

declare spec_decimal.simps [simp del]

definition spec_mask :: "string \<Rightarrow> nat \<Rightarrow> bytes" where
  "spec_mask seed i = sha256 (map of_char seed @ map of_char (spec_decimal i))"

fun spec_fold :: "string \<Rightarrow> bytes \<Rightarrow> nat \<Rightarrow> bytes list \<Rightarrow> bytes" where
  "spec_fold seed acc i [] = acc"
| "spec_fold seed acc i (b # bs) =
     spec_fold seed (sha256 (acc @ sha256 (b @ spec_mask seed i))) (Suc i) bs"

definition spec_prove :: "bytes \<Rightarrow> bytes \<Rightarrow> bytes list \<Rightarrow> string \<Rightarrow> bytes" where
  "spec_prove b1 b2 rest seed =
     spec_fold seed
       (sha256 (sha256 (b1 @ spec_mask seed 1) @ sha256 (b2 @ spec_mask seed 2))) 3 rest"

text \<open>The ASCII code of the lowercase hexadecimal digit of value \<open>d\<close>: 48 to 57 for \<open>0\<close>
  to \<open>9\<close>, 97 to 102 for \<open>a\<close> to \<open>f\<close>.\<close>

definition ascii_hex_digit :: "nat \<Rightarrow> byte" where
  "ascii_hex_digit d = (if d < 10 then 48 + of_nat d else 87 + of_nat d)"

section \<open>Example inputs\<close>

text \<open>A file of two blocks and one of three; a server that stores the first under the
  tag \<open>ab\<close> with a seed pending, and the same server with a one-byte file.\<close>

definition example_content :: bytes where
  "example_content = replicate BLOCK_SIZE 0 @ [1]"

definition example_content3 :: bytes where
  "example_content3 = replicate BLOCK_SIZE 0 @ replicate BLOCK_SIZE 1 @ [2]"

definition example_server :: server where
  "example_server =
     \<lparr>file_db = [''ab'' \<mapsto> ''server_storage/f'', ''ab_seed'' \<mapsto> ''5eed''],
      storage = [''server_storage/f'' \<mapsto> example_content]\<rparr>"

definition small_server :: server where
  "small_server =
     \<lparr>file_db = [''ab'' \<mapsto> ''server_storage/f'', ''ab_seed'' \<mapsto> ''5eed''],
      storage = [''server_storage/f'' \<mapsto> [1]]\<rparr>"

text \<open>The bytes that two calls draw from the entropy source, and an operating system that
  writes the file \<open>server_storage/f\<close> and refuses every other path.\<close>

definition example_entropy :: entropy where
  "example_entropy i = of_nat (17 * i + 3)"

definition other_entropy :: entropy where
  "other_entropy i = of_nat (5 * i)"

definition example_save :: writer where
  "example_save disk filepath content =
     (if filepath = ''server_storage/f'' then (None, disk(filepath \<mapsto> content))
      else (Some FileNotFoundError, disk))"

section \<open>Basic facts\<close>

lemma BLOCK_SIZE_pos: "0 < BLOCK_SIZE"
  by (simp add: BLOCK_SIZE_def)

lemma read_blocks_Nil: "read_blocks [] = []"
  by (simp add: read_blocks.simps)

lemma read_blocks_single: "f \<noteq> [] \<Longrightarrow> length f \<le> BLOCK_SIZE \<Longrightarrow> read_blocks f = [f]"
  using BLOCK_SIZE_pos by (subst read_blocks.simps) (simp add: read_blocks_Nil)

lemma read_blocks_append:
  "length a = BLOCK_SIZE \<Longrightarrow> read_blocks (a @ b) = a # read_blocks b"
  using BLOCK_SIZE_pos by (subst read_blocks.simps) auto

lemma read_blocks_example: "read_blocks example_content = [replicate BLOCK_SIZE 0, [1]]"
  by (simp add: example_content_def read_blocks_append read_blocks_single
        BLOCK_SIZE_pos [THEN Suc_leI])

lemma falsy_simps: "falsy None" "falsy (Some s) \<longleftrightarrow> s = []"
  by (simp_all add: falsy_def)

lemma example_server_proof:
  "generate_server_proof (storage example_server) ''server_storage/f'' ''5eed'' =
     Inr (Some (hex (sha256 (sha256 (replicate BLOCK_SIZE 0 @ prg ''5eed'' 1) @
                             sha256 ([1] @ prg ''5eed'' 2)))))"
  by (simp add: generate_server_proof_def get_file_blocks_def example_server_def
        read_blocks_example)

lemma example_server_consumed:
  "(file_db example_server)(''ab_seed'' := None) = [''ab'' \<mapsto> ''server_storage/f'']"
  by (auto simp: example_server_def)

lemma verify_ownership_cases:
  assumes "verify_ownership st tag p = Inr (r, st')"
  shows "(r = NotFound \<and> st' = st \<and>
          (falsy (file_db st tag) \<or> falsy (file_db st (tag @ ''_seed''))))
       \<or> ((r = Status_verified \<or> r = Status_failed)
           \<and> st' = st\<lparr>file_db := (file_db st)(tag @ ''_seed'' := None)\<rparr>
           \<and> \<not> falsy (file_db st tag) \<and> \<not> falsy (file_db st (tag @ ''_seed'')))"
  using assms by (auto simp: verify_ownership_def Let_def split: if_splits sum.splits)

lemma read_blocks_eq_Nil: "read_blocks f = [] \<longleftrightarrow> f = []"
  using BLOCK_SIZE_pos by (subst read_blocks.simps) auto

lemma read_blocks_Cons:
  "f \<noteq> [] \<Longrightarrow> read_blocks f = take BLOCK_SIZE f # read_blocks (drop BLOCK_SIZE f)"
  using BLOCK_SIZE_pos by (subst read_blocks.simps) auto

lemma concat_read_blocks: "concat (read_blocks f) = f"
proof (induction f rule: read_blocks.induct)
  case (1 f)
  show ?case
  proof (cases "f = []")
    case True
    then show ?thesis by (simp add: read_blocks_Nil)
  next
    case False
    with BLOCK_SIZE_pos have "take BLOCK_SIZE f \<noteq> []" by auto
    with 1 False show ?thesis by (simp add: read_blocks_Cons)
  qed
qed

lemma read_blocks_nonempty: "b \<in> set (read_blocks f) \<Longrightarrow> b \<noteq> [] \<and> length b \<le> BLOCK_SIZE"
proof (induction f rule: read_blocks.induct)
  case (1 f)
  show ?case
  proof (cases "f = []")
    case True
    with 1 show ?thesis by (simp add: read_blocks_Nil)
  next
    case False
    with BLOCK_SIZE_pos have t: "take BLOCK_SIZE f \<noteq> []" by auto
    from 1(2) False have "b = take BLOCK_SIZE f \<or> b \<in> set (read_blocks (drop BLOCK_SIZE f))"
      by (simp add: read_blocks_Cons)
    with 1(1) t show ?thesis by auto
  qed
qed

lemma read_blocks_full:
  "Suc i < length (read_blocks f) \<Longrightarrow> length (read_blocks f ! i) = BLOCK_SIZE"
proof (induction f arbitrary: i rule: read_blocks.induct)
  case (1 f)
  show ?case
  proof (cases "f = []")
    case True
    with 1 show ?thesis by (simp add: read_blocks_Nil)
  next
    case False
    with BLOCK_SIZE_pos have t: "take BLOCK_SIZE f \<noteq> []" by auto
    note rb = read_blocks_Cons [OF False]
    show ?thesis
    proof (cases i)
      case 0
      with 1(2) rb have "read_blocks (drop BLOCK_SIZE f) \<noteq> []" by auto
      then have "drop BLOCK_SIZE f \<noteq> []" by (simp add: read_blocks_eq_Nil)
      then have "BLOCK_SIZE < length f" by simp
      with 0 rb show ?thesis by simp
    next
      case (Suc j)
      with 1(2) rb have "Suc j < length (read_blocks (drop BLOCK_SIZE f))" by simp
      with 1(1) [OF t] have "length (read_blocks (drop BLOCK_SIZE f) ! j) = BLOCK_SIZE" by blast
      with Suc rb show ?thesis by simp
    qed
  qed
qed

section \<open>Facts about hexadecimal and decimal text\<close>

lemma hex_Nil: "hex [] = []"
  by (simp add: hex_def)

lemma hex_Cons: "hex (b # bs) = hex_byte b @ hex bs"
  by (simp add: hex_def)

lemma length_hex: "length (hex bs) = 2 * length bs"
  by (induction bs) (simp_all add: hex_Nil hex_Cons hex_byte_def)

lemma nibbles: "unat (b :: byte) div 16 < 16" "unat b mod 16 < 16"
proof -
  have "unat b < 256" using unsigned_less [of b] by simp
  then show "unat b div 16 < 16" by simp
  show "unat b mod 16 < 16" by simp
qed

lemma set_hex: "set (hex bs) \<subseteq> set hexdigits"
proof (induction bs)
  case Nil
  show ?case by (simp add: hex_Nil)
next
  case (Cons b bs)
  have "length hexdigits = 16" by (simp add: hexdigits_def)
  with nibbles [of b] have "set (hex_byte b) \<subseteq> set hexdigits"
    by (simp add: hex_byte_def)
  with Cons show ?case by (simp add: hex_Cons)
qed

lemma hex_byte_inj: "hex_byte a = hex_byte b \<Longrightarrow> a = b"
proof -
  assume h: "hex_byte a = hex_byte b"
  have d: "distinct hexdigits" and l: "length hexdigits = 16"
    by (simp_all add: hexdigits_def)
  from h have "hexdigits ! (unat a div 16) = hexdigits ! (unat b div 16)"
    and "hexdigits ! (unat a mod 16) = hexdigits ! (unat b mod 16)"
    by (simp_all add: hex_byte_def)
  with d l nibbles [of a] nibbles [of b]
  have "unat a div 16 = unat b div 16" "unat a mod 16 = unat b mod 16"
    by (simp_all add: nth_eq_iff_index_eq)
  then have "unat a = unat b"
    by (metis div_mult_mod_eq)
  then show "a = b" by (simp add: word_unat_eq_iff)
qed

lemma hex_inj: "hex as = hex bs \<Longrightarrow> as = bs"
proof (induction as arbitrary: bs)
  case Nil
  then show ?case
    by (cases bs) (simp_all add: hex_Nil hex_Cons hex_byte_def)
next
  case (Cons a as)
  show ?case
  proof (cases bs)
    case Nil
    with Cons(2) show ?thesis by (simp add: hex_Nil hex_Cons hex_byte_def)
  next
    case (Cons b bs')
    with Cons.prems have "hex_byte a @ hex as = hex_byte b @ hex bs'"
      by (simp add: hex_Cons)
    moreover have "length (hex_byte a) = length (hex_byte b)"
      by (simp add: hex_byte_def)
    ultimately have "hex_byte a = hex_byte b" "hex as = hex bs'"
      by simp_all
    with Cons.IH hex_byte_inj Cons show ?thesis by blast
  qed
qed

lemma of_char_hexdigit:
  assumes "d < 16"
  shows "of_char (hexdigits ! d) = ascii_hex_digit d"
proof -
  from assms
  have "d = 0 \<or> d = 1 \<or> d = 2 \<or> d = 3 \<or> d = 4 \<or> d = 5 \<or> d = 6 \<or> d = 7 \<or> d = 8 \<or> d = 9
      \<or> d = 10 \<or> d = 11 \<or> d = 12 \<or> d = 13 \<or> d = 14 \<or> d = 15"
    by arith
  then show ?thesis
    by (elim disjE) (simp_all add: hexdigits_def ascii_hex_digit_def)
qed

lemma encode_hex:
  "encode (hex bs) =
     concat (map (\<lambda>b. [ascii_hex_digit (unat b div 16), ascii_hex_digit (unat b mod 16)]) bs)"
  by (induction bs)
     (simp_all add: hex_Nil hex_Cons hex_byte_def encode_def of_char_hexdigit nibbles)

lemma upt_16: "[0..<16] = [0, 1, 2, 3, 4, 5, 6, 7, 8, 9, 10, 11, 12, 13, 14, 15]"
  by code_simp

lemma example_seed: "token_hex 16 example_entropy = ''031425364758697a8b9cadbecfe0f102''"
  by (simp add: token_hex_def token_bytes_def hex_def hex_byte_def hexdigits_def
        example_entropy_def upt_16)


lemma digit_char:
  assumes "d < 10"
  shows "hexdigits ! d = ''0123456789'' ! d"
proof -
  from assms
  have "d = 0 \<or> d = 1 \<or> d = 2 \<or> d = 3 \<or> d = 4 \<or> d = 5 \<or> d = 6 \<or> d = 7 \<or> d = 8 \<or> d = 9"
    by arith
  then show ?thesis
    by (elim disjE) (simp_all add: hexdigits_def)
qed

lemma str_nat_decimal: "str_nat n = spec_decimal n"
proof (induction n rule: str_nat.induct)
  case (1 n)
  show ?case
  proof (cases "n < 10")
    case True
    then show ?thesis
      by (subst str_nat.simps, subst spec_decimal.simps) (simp add: digit_char)
  next
    case False
    with 1 show ?thesis
      by (subst str_nat.simps, subst spec_decimal.simps) (simp add: digit_char)
  qed
qed

section \<open>Facts about the proof loop\<close>

lemma prg_spec_mask: "prg seed (int k + 1) = spec_mask seed (Suc k)"
proof -
  have "nat (int k + 1) = Suc k" by simp
  then show ?thesis
    by (simp add: prg_def spec_mask_def encode_def str_def str_nat_decimal)
qed

lemma chain_loop:
  "k \<le> length blocks \<Longrightarrow>
   foldl (\<lambda>resp i. let block_hash = sha256 (blocks ! i @ prg seed (int i + 1))
                    in sha256 (resp @ block_hash))
     acc [k..<length blocks]
   = spec_fold seed acc (Suc k) (drop k blocks)"
proof (induction "length blocks - k" arbitrary: k acc)
  case 0
  then show ?case by simp
next
  case (Suc n)
  then have lt: "k < length blocks" by simp
  then have d: "drop k blocks = blocks ! k # drop (Suc k) blocks"
    by (simp add: Cons_nth_drop_Suc)
  from Suc(2) lt have n: "n = length blocks - Suc k" by simp
  from lt have "Suc k \<le> length blocks" by simp
  from Suc(1) [OF n this] lt d show ?case
    by (simp add: upt_conv_Cons prg_spec_mask del: upt_Suc)
qed

lemma read_blocks_example3:
  "read_blocks example_content3 = [replicate BLOCK_SIZE 0, replicate BLOCK_SIZE 1, [2]]"
  by (simp add: example_content3_def read_blocks_append read_blocks_single
        BLOCK_SIZE_pos [THEN Suc_leI])

section \<open>Facts about the endpoints and histories\<close>

lemma check_exists:
  assumes "handle_upload_check st tag rnd = (Status_exists seed, st')"
  shows "seed = token_hex 16 rnd" "tag \<noteq> []" "tag \<in> dom (file_db st)"
    "st' = st\<lparr>file_db := (file_db st)(tag @ ''_seed'' \<mapsto> seed)\<rparr>"
  using assms by (auto simp: handle_upload_check_def Let_def split: if_splits)

lemma check_registered:
  assumes "tag \<noteq> []" and "tag \<in> dom (file_db st)"
  shows "handle_upload_check st tag rnd =
           (Status_exists (token_hex 16 rnd),
            st\<lparr>file_db := (file_db st)(tag @ ''_seed'' \<mapsto> token_hex 16 rnd)\<rparr>)"
  using assms by (simp add: handle_upload_check_def Let_def)

lemma check_new:
  assumes "tag \<noteq> []"
  shows "fst (handle_upload_check st tag rnd) = Status_new \<longleftrightarrow> tag \<notin> dom (file_db st)"
  using assms by (simp add: handle_upload_check_def Let_def)

lemma seed_key_suffix: "suffix ''_seed'' (tag @ ''_seed'')"
  by (simp add: suffix_def)

text \<open>Every key that a check or a verification writes or deletes ends in \<open>_seed\<close>; on the
  other keys \<open>file_db\<close> holds exactly the tags that uploads registered.\<close>

lemma step_registered:
  assumes "\<forall>t. \<not> suffix ''_seed'' t \<longrightarrow> (t \<in> dom (file_db st) \<longleftrightarrow> t \<in> reg)"
  shows "\<forall>t. \<not> suffix ''_seed'' t \<longrightarrow>
           (t \<in> dom (file_db (step st e)) \<longleftrightarrow> t \<in> reg \<union> registers st e)"
proof (cases e)
  case (Check_file tag rnd)
  have "file_db (snd (handle_upload_check st tag rnd)) t = file_db st t"
    if "\<not> suffix ''_seed'' t" for t
  proof -
    from that seed_key_suffix [of tag] have "t \<noteq> tag @ ''_seed''" by auto
    then show ?thesis by (simp add: handle_upload_check_def Let_def)
  qed
  then have "t \<in> dom (file_db (snd (handle_upload_check st tag rnd))) \<longleftrightarrow> t \<in> dom (file_db st)"
    if "\<not> suffix ''_seed'' t" for t
    using that by (simp add: dom_def)
  with assms Check_file show ?thesis by simp
next
  case (Upload_file upload tag save)
  with assms show ?thesis
    by (auto simp: upload_full_file_def Let_def split: option.splits prod.splits if_splits)
next
  case (Verify tag user_proof)
  show ?thesis
  proof (cases "verify_ownership st tag user_proof")
    case (Inl err)
    with assms Verify show ?thesis by simp
  next
    case (Inr res)
    obtain r st' where res: "res = (r, st')" by (cases res)
    have keep: "t \<in> dom ((file_db st)(tag @ ''_seed'' := None)) \<longleftrightarrow> t \<in> dom (file_db st)"
      if "\<not> suffix ''_seed'' t" for t
    proof -
      from that seed_key_suffix [of tag] have "t \<noteq> tag @ ''_seed''" by auto
      then show ?thesis by simp
    qed
    from verify_ownership_cases [OF Inr [unfolded res]]
    consider "st' = st" | "st' = st\<lparr>file_db := (file_db st)(tag @ ''_seed'' := None)\<rparr>"
      by blast
    then have "t \<in> dom (file_db st') \<longleftrightarrow> t \<in> dom (file_db st)"
      if "\<not> suffix ''_seed'' t" for t
    proof cases
      case 1
      then show ?thesis by simp
    next
      case 2
      with keep [OF that] show ?thesis by simp
    qed
    with assms Verify Inr res show ?thesis by simp
  qed
qed

lemma run_registered:
  assumes "run (st, reg) es = (st', reg')"
    and "\<forall>t. \<not> suffix ''_seed'' t \<longrightarrow> (t \<in> dom (file_db st) \<longleftrightarrow> t \<in> reg)"
  shows "\<forall>t. \<not> suffix ''_seed'' t \<longrightarrow> (t \<in> dom (file_db st') \<longleftrightarrow> t \<in> reg')"
  using assms
proof (induction es arbitrary: st reg)
  case Nil
  then show ?case by simp
next
  case (Cons e es)
  from Cons.prems(1) have "run (step st e, reg \<union> registers st e) es = (st', reg')" by simp
  from Cons.IH [OF this step_registered [OF Cons.prems(2)]] show ?case .
qed

lemma example_history:
  "run (start Map.empty)
     [Upload_file (Some (''f'', example_content)) ''ab'' example_save,
      Upload_file (Some (''g'', [1])) ''cd'' example_save,
      Check_file ''ab'' other_entropy]
   = (\<lparr>file_db = [''ab'' \<mapsto> ''server_storage/f'', ''ab_seed'' \<mapsto> token_hex 16 other_entropy],
       storage = [''server_storage/f'' \<mapsto> example_content]\<rparr>, {''ab''})"
  by (simp add: start_def upload_full_file_def path_join_def SERVER_STORAGE_PATH_def
        example_save_def handle_upload_check_def Let_def)

section \<open>Verification and the pending challenge\<close>

text \<open>
  C10. When \<open>verify_ownership\<close> answers 404 because the tag has no stored path or no pending
  seed, the state it returns is the state it was given: nothing is consumed, added or
  removed. No proof is computed on that branch: the answer is the same whatever the disk
  holds.
\<close>

theorem verify_not_found_leaves_state:
  assumes "falsy (file_db st tag) \<or> falsy (file_db st (tag @ ''_seed''))"
  shows "verify_ownership st tag user_proof = Inr (NotFound, st) \<and>
         (\<forall>disk. verify_ownership (st\<lparr>storage := disk\<rparr>) tag user_proof
                   = Inr (NotFound, st\<lparr>storage := disk\<rparr>))"
  using assms by (auto simp: verify_ownership_def)

theorem verify_not_found_leaves_state_witness:
  "falsy (file_db example_server ''cd'') \<and>
   verify_ownership example_server ''cd'' (Some ''00'') = Inr (NotFound, example_server)"
proof -
  have h: "falsy (file_db example_server ''cd'')"
    by (simp add: example_server_def falsy_def)
  with verify_not_found_leaves_state [of example_server "''cd''" "Some ''00''"]
  show ?thesis by simp
qed

text \<open>
  C2. After a verification that answered verified or failed, the pending seed of the tag
  is gone from \<open>file_db\<close>, and every further verification for the tag, with any proof,
  answers 404.
\<close>

theorem challenge_single_use:
  assumes "verify_ownership st tag p = Inr (r, st')"
    and "r = Status_verified \<or> r = Status_failed"
  shows "file_db st' (tag @ ''_seed'') = None \<and>
         (\<forall>p'. verify_ownership st' tag p' = Inr (NotFound, st'))"
proof -
  from verify_ownership_cases [OF assms(1)] assms(2)
  have st': "st' = st\<lparr>file_db := (file_db st)(tag @ ''_seed'' := None)\<rparr>"
    by auto
  then have none: "file_db st' (tag @ ''_seed'') = None"
    by simp
  then have "\<forall>p'. verify_ownership st' tag p' = Inr (NotFound, st')"
    by (simp add: verify_ownership_def falsy_simps)
  with none show ?thesis by simp
qed

theorem challenge_single_use_witness:
  "verify_ownership example_server ''ab'' None
     = Inr (Status_failed, example_server\<lparr>file_db := [''ab'' \<mapsto> ''server_storage/f'']\<rparr>) \<and>
   (\<forall>p'. verify_ownership (example_server\<lparr>file_db := [''ab'' \<mapsto> ''server_storage/f'']\<rparr>) ''ab'' p'
      = Inr (NotFound, example_server\<lparr>file_db := [''ab'' \<mapsto> ''server_storage/f'']\<rparr>))"
proof -
  have v: "verify_ownership example_server ''ab'' None
     = Inr (Status_failed, example_server\<lparr>file_db := [''ab'' \<mapsto> ''server_storage/f'']\<rparr>)"
    using example_server_proof example_server_consumed
    by (simp add: verify_ownership_def falsy_def) (simp add: example_server_def)
  from challenge_single_use [OF v] v show ?thesis by simp
qed

text \<open>
  C3. Verification is to answer verified only when the submitted proof equals the proof
  recomputed from the stored file and the pending seed. On a stored file of fewer than two
  blocks \<open>generate_server_proof\<close> returns \<open>None\<close> where \<open>generate_user_proof\<close> raises, and
  \<open>verify_ownership\<close> compares it with the \<open>None\<close> of a request that carries no proof: the
  request is answered verified and the seed is consumed, though no proof was recomputed
  and none was submitted.
\<close>

theorem verified_without_any_proof:
  "verify_ownership small_server ''ab'' None =
     Inr (Status_verified, small_server\<lparr>file_db := [''ab'' \<mapsto> ''server_storage/f'']\<rparr>)"
proof -
  have g: "generate_server_proof (storage small_server) ''server_storage/f'' ''5eed'' = Inr None"
    by (simp add: generate_server_proof_def get_file_blocks_def small_server_def
          read_blocks_single BLOCK_SIZE_pos [THEN Suc_leI])
  have db: "(file_db small_server)(''ab_seed'' := None) = [''ab'' \<mapsto> ''server_storage/f'']"
    by (auto simp: small_server_def)
  show ?thesis
    using g db by (simp add: verify_ownership_def falsy_def) (simp add: small_server_def)
qed

text \<open>
  Such a state is reached through the endpoints: the upload of a one-byte file and a check
  of its tag leave the file stored with a seed pending, and a verification without a proof
  is then answered verified.
\<close>

lemma one_block_file_history:
  "run (start Map.empty)
     [Upload_file (Some (''f'', [1])) ''ab'' example_save,
      Check_file ''ab'' example_entropy,
      Verify ''ab'' None]
   = (\<lparr>file_db = [''ab'' \<mapsto> ''server_storage/f''],
       storage = [''server_storage/f'' \<mapsto> [1]]\<rparr>, {''ab''}) \<and>
   verify_ownership
     \<lparr>file_db = [''ab'' \<mapsto> ''server_storage/f'',
                  ''ab_seed'' \<mapsto> ''031425364758697a8b9cadbecfe0f102''],
      storage = [''server_storage/f'' \<mapsto> [1]]\<rparr> ''ab'' None
   = Inr (Status_verified,
          \<lparr>file_db = [''ab'' \<mapsto> ''server_storage/f''],
           storage = [''server_storage/f'' \<mapsto> [1]]\<rparr>)"
proof -
  let ?st = "\<lparr>file_db = [''ab'' \<mapsto> ''server_storage/f'',
                  ''ab_seed'' \<mapsto> ''031425364758697a8b9cadbecfe0f102''],
      storage = [''server_storage/f'' \<mapsto> [1::byte]]\<rparr>"
  have g: "generate_server_proof [''server_storage/f'' \<mapsto> [1]] ''server_storage/f''
             ''031425364758697a8b9cadbecfe0f102'' = Inr None"
    by (simp add: generate_server_proof_def get_file_blocks_def
          read_blocks_single BLOCK_SIZE_pos [THEN Suc_leI])
  have db: "[''ab'' \<mapsto> ''server_storage/f'',
             ''ab_seed'' \<mapsto> ''031425364758697a8b9cadbecfe0f102''](''ab_seed'' := None)
            = [''ab'' \<mapsto> ''server_storage/f'']"
    by auto
  have v: "verify_ownership ?st ''ab'' None =
     Inr (Status_verified, \<lparr>file_db = [''ab'' \<mapsto> ''server_storage/f''],
           storage = [''server_storage/f'' \<mapsto> [1]]\<rparr>)"
    using g db by (simp add: verify_ownership_def falsy_def)
  have "run (start Map.empty)
     [Upload_file (Some (''f'', [1])) ''ab'' example_save,
      Check_file ''ab'' example_entropy] = (?st, {''ab''})"
    by (simp add: start_def upload_full_file_def path_join_def SERVER_STORAGE_PATH_def
          example_save_def handle_upload_check_def Let_def example_seed)
  then have "run (start Map.empty)
     [Upload_file (Some (''f'', [1])) ''ab'' example_save,
      Check_file ''ab'' example_entropy,
      Verify ''ab'' None] = run (?st, {''ab''}) [Verify ''ab'' None]"
    by (simp add: start_def)
  with v show ?thesis by simp
qed

section \<open>The block segmenter\<close>

text \<open>
  C8. On a readable file, \<open>get_file_blocks\<close> yields a finite list of blocks whose
  concatenation in order is the file's content; no block is empty, every block but the
  last has exactly 4096 bytes, and the last has between 1 and 4096.
\<close>

theorem segmenter_blocks:
  assumes "fs filepath = Some content"
  shows "\<exists>blocks. get_file_blocks fs filepath = Inr blocks \<and>
           concat blocks = content \<and>
           (\<forall>b \<in> set blocks. b \<noteq> []) \<and>
           (\<forall>i. i + 1 < length blocks \<longrightarrow> length (blocks ! i) = 4096) \<and>
           (blocks \<noteq> [] \<longrightarrow> 1 \<le> length (last blocks) \<and> length (last blocks) \<le> 4096)"
proof -
  let ?bs = "read_blocks content"
  have g: "get_file_blocks fs filepath = Inr ?bs"
    using assms by (simp add: get_file_blocks_def)
  have ne: "\<forall>b \<in> set ?bs. b \<noteq> []"
    using read_blocks_nonempty by blast
  have full: "\<forall>i. i + 1 < length ?bs \<longrightarrow> length (?bs ! i) = 4096"
    using read_blocks_full [of _ content] by (simp add: BLOCK_SIZE_def)
  have "?bs \<noteq> [] \<longrightarrow> 1 \<le> length (last ?bs) \<and> length (last ?bs) \<le> 4096"
  proof
    assume "?bs \<noteq> []"
    then have "last ?bs \<in> set ?bs" by simp
    from read_blocks_nonempty [OF this]
    show "1 \<le> length (last ?bs) \<and> length (last ?bs) \<le> 4096"
      by (simp add: BLOCK_SIZE_def Suc_le_eq)
  qed
  with g ne full concat_read_blocks [of content] show ?thesis by blast
qed

theorem segmenter_blocks_witness:
  "[''f'' \<mapsto> example_content] ''f'' = Some example_content \<and>
   get_file_blocks [''f'' \<mapsto> example_content] ''f'' = Inr [replicate 4096 0, [1]] \<and>
   concat [replicate 4096 0, [1]] = example_content"
proof -
  have h: "[''f'' \<mapsto> example_content] ''f'' = Some example_content" by simp
  have g: "get_file_blocks [''f'' \<mapsto> example_content] ''f'' = Inr [replicate 4096 0, [1]]"
    using read_blocks_example by (simp add: get_file_blocks_def BLOCK_SIZE_def)
  from segmenter_blocks [of "[''f'' \<mapsto> example_content]" "''f''" example_content] h g
  show ?thesis by auto
qed

section \<open>The two proof functions\<close>

text \<open>
  C5. On the same content of at least two blocks and the same seed, the claimant's
  \<open>generate_user_proof\<close> and the server's \<open>generate_server_proof\<close> both return, and return
  the same hex text.
\<close>

theorem client_server_proofs_agree:
  assumes "client_disk client_path = Some content"
    and "server_disk server_path = Some content"
    and "2 \<le> length (read_blocks content)"
  shows "\<exists>proof. generate_user_proof client_disk client_path seed = Inr proof \<and>
                 generate_server_proof server_disk server_path seed = Inr (Some proof)"
  using assms
  by (simp add: generate_user_proof_def generate_server_proof_def get_file_blocks_def Let_def)

theorem client_server_proofs_agree_witness:
  "[''my_file'' \<mapsto> example_content] ''my_file'' = Some example_content \<and>
   storage example_server ''server_storage/f'' = Some example_content \<and>
   2 \<le> length (read_blocks example_content) \<and>
   generate_user_proof [''my_file'' \<mapsto> example_content] ''my_file'' ''5eed'' =
     Inr (hex (sha256 (sha256 (replicate BLOCK_SIZE 0 @ prg ''5eed'' 1) @
                       sha256 ([1] @ prg ''5eed'' 2)))) \<and>
   generate_server_proof (storage example_server) ''server_storage/f'' ''5eed'' =
     Inr (Some (hex (sha256 (sha256 (replicate BLOCK_SIZE 0 @ prg ''5eed'' 1) @
                       sha256 ([1] @ prg ''5eed'' 2)))))"
proof -
  have h1: "[''my_file'' \<mapsto> example_content] ''my_file'' = Some example_content" by simp
  have h2: "storage example_server ''server_storage/f'' = Some example_content"
    by (simp add: example_server_def)
  have h3: "2 \<le> length (read_blocks example_content)"
    by (simp add: read_blocks_example)
  from client_server_proofs_agree [of "[''my_file'' \<mapsto> example_content]" "''my_file''"
      example_content "storage example_server" "''server_storage/f''" "''5eed''"]
    example_server_proof h1 h2 h3
  show ?thesis by auto
qed

text \<open>
  C4. A file of fewer than two blocks is to be refused with an error by the proof
  computation. \<open>generate_user_proof\<close> raises \<open>ValueError\<close> on a one-block file;
  \<open>generate_server_proof\<close>, on the same file and seed, raises nothing and returns
  \<open>None\<close>.
\<close>

theorem server_proof_on_one_block:
  "generate_server_proof [''f'' \<mapsto> [1]] ''f'' ''5eed'' = Inr None \<and>
   generate_user_proof [''f'' \<mapsto> [1]] ''f'' ''5eed'' =
     Inl (ValueError
       ''File is too small for this proof scheme (must have at least two blocks).'')"
  by (simp add: generate_server_proof_def generate_user_proof_def get_file_blocks_def
        read_blocks_single BLOCK_SIZE_pos [THEN Suc_leI])

text \<open>
  C1. On a file of blocks \<open>b1, b2, ..., bN\<close> with \<open>N \<ge> 2\<close>, \<open>generate_user_proof\<close>
  returns the hex text of the chained fold of the specification: the hash of the two
  masked hashes of \<open>b1\<close> and \<open>b2\<close>, into which the masked hash of each further block is
  absorbed in ascending order, the mask of index \<open>i\<close> being the hash of the seed's bytes
  followed by \<open>i\<close> in decimal.
\<close>

theorem proof_is_chained_fold:
  assumes "get_file_blocks fs filepath = Inr (b1 # b2 # rest)"
  shows "generate_user_proof fs filepath seed = Inr (hex (spec_prove b1 b2 rest seed))"
proof -
  let ?blocks = "b1 # b2 # rest"
  have "foldl (\<lambda>resp i. let block_hash = sha256 (?blocks ! i @ prg seed (int i + 1))
                    in sha256 (resp @ block_hash))
          acc [2..<length ?blocks]
        = spec_fold seed acc 3 rest" for acc
    using chain_loop [of 2 ?blocks seed acc] by (simp add: numeral_3_eq_3)
  moreover have "prg seed 1 = spec_mask seed 1" "prg seed 2 = spec_mask seed 2"
    using prg_spec_mask [of seed 0] prg_spec_mask [of seed 1]
    by (simp_all add: numeral_2_eq_2)
  ultimately show ?thesis
    using assms by (simp add: generate_user_proof_def spec_prove_def Let_def)
qed

theorem proof_is_chained_fold_witness:
  "get_file_blocks [''f'' \<mapsto> example_content3] ''f''
     = Inr [replicate BLOCK_SIZE 0, replicate BLOCK_SIZE 1, [2]] \<and>
   generate_user_proof [''f'' \<mapsto> example_content3] ''f'' ''5eed''
     = Inr (hex (sha256
         (sha256 (sha256 (replicate BLOCK_SIZE 0 @ sha256 (encode ''5eed'' @ encode ''1'')) @
                  sha256 (replicate BLOCK_SIZE 1 @ sha256 (encode ''5eed'' @ encode ''2''))) @
          sha256 ([2] @ sha256 (encode ''5eed'' @ encode ''3'')))))"
proof -
  have g: "get_file_blocks [''f'' \<mapsto> example_content3] ''f''
     = Inr [replicate BLOCK_SIZE 0, replicate BLOCK_SIZE 1, [2]]"
    by (simp add: get_file_blocks_def read_blocks_example3)
  have s: "spec_decimal 1 = ''1''" "spec_decimal 2 = ''2''" "spec_decimal 3 = ''3''"
    by (simp_all add: spec_decimal.simps)
  from proof_is_chained_fold [of "[''f'' \<mapsto> example_content3]" "''f''" _ _ _ "''5eed''"] g s
  show ?thesis by (simp add: spec_prove_def spec_mask_def encode_def)
qed

section \<open>Issuing challenges\<close>



text \<open>
  C7. After any history of requests from the empty \<open>file_db\<close>, a check of a tag that is
  not empty and does not end in \<open>_seed\<close> answers new exactly when no upload has registered
  the tag; for a registered tag it answers exists with the seed made from the entropy that
  this call draws, and stores that seed as the tag's pending seed.
\<close>

theorem check_file_after_history:
  assumes "run (start disk) history = (st, reg)"
    and "tag \<noteq> []" and "\<not> suffix ''_seed'' tag"
  shows "(fst (handle_upload_check st tag rnd) = Status_new \<longleftrightarrow> tag \<notin> reg) \<and>
         (tag \<in> reg \<longrightarrow>
            handle_upload_check st tag rnd =
              (Status_exists (token_hex 16 rnd),
               st\<lparr>file_db := (file_db st)(tag @ ''_seed'' \<mapsto> token_hex 16 rnd)\<rparr>))"
proof -
  have "\<forall>t. \<not> suffix ''_seed'' t \<longrightarrow> (t \<in> dom (file_db st) \<longleftrightarrow> t \<in> reg)"
    using run_registered [OF assms(1) [unfolded start_def]] by simp
  with assms(3) have "tag \<in> dom (file_db st) \<longleftrightarrow> tag \<in> reg" by blast
  with check_new [OF assms(2), of st rnd] check_registered [OF assms(2), of st rnd]
  show ?thesis by blast
qed

theorem check_file_after_history_witness:
  "run (start Map.empty)
     [Upload_file (Some (''f'', example_content)) ''ab'' example_save,
      Upload_file (Some (''g'', [1])) ''cd'' example_save,
      Check_file ''ab'' other_entropy]
   = (\<lparr>file_db = [''ab'' \<mapsto> ''server_storage/f'', ''ab_seed'' \<mapsto> token_hex 16 other_entropy],
       storage = [''server_storage/f'' \<mapsto> example_content]\<rparr>, {''ab''}) \<and>
   handle_upload_check
     \<lparr>file_db = [''ab'' \<mapsto> ''server_storage/f'', ''ab_seed'' \<mapsto> token_hex 16 other_entropy],
      storage = [''server_storage/f'' \<mapsto> example_content]\<rparr> ''ab'' example_entropy
   = (Status_exists (token_hex 16 example_entropy),
      \<lparr>file_db = [''ab'' \<mapsto> ''server_storage/f'', ''ab_seed'' \<mapsto> token_hex 16 example_entropy],
       storage = [''server_storage/f'' \<mapsto> example_content]\<rparr>) \<and>
   fst (handle_upload_check
     \<lparr>file_db = [''ab'' \<mapsto> ''server_storage/f'', ''ab_seed'' \<mapsto> token_hex 16 other_entropy],
      storage = [''server_storage/f'' \<mapsto> example_content]\<rparr> ''cd'' example_entropy)
   = Status_new"
proof -
  have t: "''ab'' \<noteq> []" "''cd'' \<noteq> []" "\<not> suffix ''_seed'' ''ab''" "\<not> suffix ''_seed'' ''cd''"
    by (simp_all add: suffix_to_prefix)
  from check_file_after_history [OF example_history t(1) t(3), of example_entropy]
       check_file_after_history [OF example_history t(2) t(4), of example_entropy]
       example_history
  show ?thesis by simp
qed

text \<open>
  The empty tag is answered neither new nor exists: \<open>handle_upload_check\<close> refuses it with
  status 400, on the server that has registered nothing.
\<close>

theorem check_file_empty_tag_counterexample:
  "snd (run (start Map.empty) []) = {} \<and>
   fst (handle_upload_check (fst (run (start Map.empty) [])) [] example_entropy)
     = Status_error ''File tag missing.'' 400"
  by (simp add: start_def handle_upload_check_def)

text \<open>
  C9. A seed that a check issues is the hex text of the 16 bytes drawn from the entropy
  source: 32 characters among \<open>0123456789abcdef\<close>, different for different bytes. It is
  stored as the tag's pending seed, and \<open>prg\<close> hashes its ASCII codes, the codes of the two
  hex digits of each byte, followed by the index in decimal.
\<close>

theorem issued_seed_format:
  assumes "handle_upload_check st tag rnd = (Status_exists seed, st')"
  shows "seed = hex (map rnd [0..<16]) \<and>
         length seed = 32 \<and>
         set seed \<subseteq> set ''0123456789abcdef'' \<and>
         (\<forall>rnd'. hex (map rnd' [0..<16]) = seed \<longrightarrow> map rnd' [0..<16] = map rnd [0..<16]) \<and>
         file_db st' (tag @ ''_seed'') = Some seed \<and>
         encode seed =
           concat (map (\<lambda>b. [ascii_hex_digit (unat b div 16), ascii_hex_digit (unat b mod 16)])
                     (map rnd [0..<16])) \<and>
         (\<forall>index. prg seed index = sha256 (encode seed @ encode (str index)))"
proof -
  from check_exists [OF assms]
  have s: "seed = hex (map rnd [0..<16])"
    and st': "st' = st\<lparr>file_db := (file_db st)(tag @ ''_seed'' \<mapsto> seed)\<rparr>"
    by (simp_all add: token_hex_def token_bytes_def)
  have 1: "length seed = 32" unfolding s by (simp add: length_hex)
  have 2: "set seed \<subseteq> set ''0123456789abcdef''"
    unfolding s using set_hex [of "map rnd [0..<16]"] by (simp only: hexdigits_def)
  have 3: "\<forall>rnd'. hex (map rnd' [0..<16]) = seed \<longrightarrow> map rnd' [0..<16] = map rnd [0..<16]"
    unfolding s using hex_inj by blast
  have 4: "file_db st' (tag @ ''_seed'') = Some seed" by (simp add: st')
  have 5: "encode seed =
           concat (map (\<lambda>b. [ascii_hex_digit (unat b div 16), ascii_hex_digit (unat b mod 16)])
                     (map rnd [0..<16]))"
    unfolding s by (rule encode_hex)
  have 6: "\<forall>index. prg seed index = sha256 (encode seed @ encode (str index))"
    by (simp add: prg_def)
  from s 1 2 3 4 5 6 show ?thesis by blast
qed

theorem issued_seed_format_witness:
  "handle_upload_check example_server ''ab'' example_entropy =
     (Status_exists ''031425364758697a8b9cadbecfe0f102'',
      example_server\<lparr>file_db :=
        [''ab'' \<mapsto> ''server_storage/f'', ''ab_seed'' \<mapsto> ''031425364758697a8b9cadbecfe0f102'']\<rparr>) \<and>
   length ''031425364758697a8b9cadbecfe0f102'' = 32 \<and>
   encode ''031425364758697a8b9cadbecfe0f102'' =
     [48, 51, 49, 52, 50, 53, 51, 54, 52, 55, 53, 56, 54, 57, 55, 97,
      56, 98, 57, 99, 97, 100, 98, 101, 99, 102, 101, 48, 102, 49, 48, 50] \<and>
   prg ''031425364758697a8b9cadbecfe0f102'' 1 =
     sha256 (encode ''031425364758697a8b9cadbecfe0f102'' @ encode ''1'')"
proof -
  have c: "handle_upload_check example_server ''ab'' example_entropy =
     (Status_exists ''031425364758697a8b9cadbecfe0f102'',
      example_server\<lparr>file_db :=
        [''ab'' \<mapsto> ''server_storage/f'', ''ab_seed'' \<mapsto> ''031425364758697a8b9cadbecfe0f102'']\<rparr>)"
    by (simp add: handle_upload_check_def example_seed Let_def) (simp add: example_server_def)
  have b: "concat (map (\<lambda>b. [ascii_hex_digit (unat b div 16), ascii_hex_digit (unat b mod 16)])
                     (map example_entropy [0..<16])) =
     [48, 51, 49, 52, 50, 53, 51, 54, 52, 55, 53, 56, 54, 57, 55, 97,
      56, 98, 57, 99, 97, 100, 98, 101, 99, 102, 101, 48, 102, 49, 48, 50]"
    by (simp add: ascii_hex_digit_def example_entropy_def upt_16)
  have s: "str 1 = ''1''"
    by (simp add: str_def str_nat.simps hexdigits_def)
  from issued_seed_format [OF c]
  have l: "length ''031425364758697a8b9cadbecfe0f102'' = 32"
    and e: "encode ''031425364758697a8b9cadbecfe0f102'' =
      concat (map (\<lambda>b. [ascii_hex_digit (unat b div 16), ascii_hex_digit (unat b mod 16)])
                     (map example_entropy [0..<16]))"
    and p: "\<forall>index. prg ''031425364758697a8b9cadbecfe0f102'' index =
      sha256 (encode ''031425364758697a8b9cadbecfe0f102'' @ encode (str index))"
    by blast+
  from p s have "prg ''031425364758697a8b9cadbecfe0f102'' 1 =
     sha256 (encode ''031425364758697a8b9cadbecfe0f102'' @ encode ''1'')"
    by metis
  with c l e [unfolded b] show ?thesis by (intro conjI)
qed

end
